theory Spec2Isabelle
  imports Main
begin

section \<open>Values and thrown errors\<close>

text \<open>
  The pricing code of \<^verbatim>\<open>src/pages/Main/index.js\<close> computes on \<^verbatim>\<open>ethers.BigNumber\<close>
  objects: integers of arbitrary size, negative ones included. The hooks that deliver
  reserves, balances and allowances return \<^verbatim>\<open>undefined\<close> until the data has arrived.
  A value is therefore either absent or a big number.
\<close>

datatype jsval = Undefined | BN int

text \<open>
  What a call can throw: a method call on \<^verbatim>\<open>undefined\<close> is a \<^verbatim>\<open>TypeError\<close>;
  \<^verbatim>\<open>BigNumber.from(undefined)\<close>, which every arithmetic method applies to its argument,
  is an invalid-argument fault of the library; a division by zero is a numeric fault of
  the library; \<^verbatim>\<open>throw Error()\<close> is a plain error; \<^verbatim>\<open>parseUnits\<close> rejects a
  string that is no decimal number.
\<close>

datatype js_error = TypeError | InvalidArgument | NumericFault | PlainError | ParseFault

text \<open>
  The members of \<^verbatim>\<open>ERROR_CODES\<close> (imported from \<^verbatim>\<open>../../utils\<close>) that the code
  assigns to \<^verbatim>\<open>error.code\<close>; a code is identified by the member name the source reads.
\<close>

datatype error_code =
    INVALID_AMOUNT
  | INVALID_TRADE
  | INVALID_EXCHANGE
  | INSUFFICIENT_ETH_GAS
  | INSUFFICIENT_SELECTED_TOKEN_BALANCE
  | INSUFFICIENT_ALLOWANCE

text \<open>An error object in flight: what was thrown, and the \<^verbatim>\<open>code\<close> a handler gave it.\<close>

datatype thrown = Thrown js_error "error_code option"

text \<open>Sequencing of calls that may throw: the first error ends the computation.\<close>

definition and_then :: "'e + 'a \<Rightarrow> ('a \<Rightarrow> 'e + 'b) \<Rightarrow> 'e + 'b" where
  "and_then m f = (case m of Inl e \<Rightarrow> Inl e | Inr x \<Rightarrow> f x)"

section \<open>BigNumber methods\<close>

text \<open>
  \<^verbatim>\<open>BigNumber.div\<close> delegates to an integer division that truncates towards zero,
  where HOL's \<open>div\<close> rounds down.
\<close>

definition quot :: "int \<Rightarrow> int \<Rightarrow> int" where
  "quot a b = sgn a * sgn b * (\<bar>a\<bar> div \<bar>b\<bar>)"

fun mul :: "jsval \<Rightarrow> jsval \<Rightarrow> js_error + jsval" where
  "mul Undefined _ = Inl TypeError"
| "mul (BN _) Undefined = Inl InvalidArgument"
| "mul (BN a) (BN b) = Inr (BN (a * b))"

fun add :: "jsval \<Rightarrow> jsval \<Rightarrow> js_error + jsval" where
  "add Undefined _ = Inl TypeError"
| "add (BN _) Undefined = Inl InvalidArgument"
| "add (BN a) (BN b) = Inr (BN (a + b))"

fun sub :: "jsval \<Rightarrow> jsval \<Rightarrow> js_error + jsval" where
  "sub Undefined _ = Inl TypeError"
| "sub (BN _) Undefined = Inl InvalidArgument"
| "sub (BN a) (BN b) = Inr (BN (a - b))"

fun div_bn :: "jsval \<Rightarrow> jsval \<Rightarrow> js_error + jsval" where
  "div_bn Undefined _ = Inl TypeError"
| "div_bn (BN _) Undefined = Inl InvalidArgument"
| "div_bn (BN a) (BN b) = (if b = 0 then Inl NumericFault else Inr (BN (quot a b)))"

fun lt :: "jsval \<Rightarrow> jsval \<Rightarrow> js_error + bool" where
  "lt Undefined _ = Inl TypeError"
| "lt (BN _) Undefined = Inl InvalidArgument"
| "lt (BN a) (BN b) = Inr (a < b)"

fun lte :: "jsval \<Rightarrow> jsval \<Rightarrow> js_error + bool" where
  "lte Undefined _ = Inl TypeError"
| "lte (BN _) Undefined = Inl InvalidArgument"
| "lte (BN a) (BN b) = Inr (a \<le> b)"

fun gt :: "jsval \<Rightarrow> jsval \<Rightarrow> js_error + bool" where
  "gt Undefined _ = Inl TypeError"
| "gt (BN _) Undefined = Inl InvalidArgument"
| "gt (BN a) (BN b) = Inr (a > b)"

fun gte :: "jsval \<Rightarrow> jsval \<Rightarrow> js_error + bool" where
  "gte Undefined _ = Inl TypeError"
| "gte (BN _) Undefined = Inl InvalidArgument"
| "gte (BN a) (BN b) = Inr (a \<ge> b)"

text \<open>
  JavaScript truthiness on the values at hand: \<^verbatim>\<open>undefined\<close> is falsy, an object is
  truthy whatever number it holds.
\<close>

fun truthy :: "jsval \<Rightarrow> bool" where
  "truthy Undefined = False"
| "truthy (BN _) = True"

definition Zero :: jsval where
  "Zero = BN 0"

definition One :: jsval where
  "One = BN 1"

definition uint256_max :: int where
  "uint256_max = 2 ^ 256 - 1"

definition MaxUint256 :: jsval where
  "MaxUint256 = BN uint256_max"

section \<open>Slippage bounds\<close>

definition ALLOWED_SLIPPAGE :: jsval where
  "ALLOWED_SLIPPAGE = BN 200"

record slippage_bounds =
  minimum :: jsval
  maximum :: jsval

definition calculateSlippageBounds :: "jsval \<Rightarrow> js_error + slippage_bounds" where
  "calculateSlippageBounds val =
     and_then (mul val ALLOWED_SLIPPAGE) (\<lambda>scaled.
     and_then (div_bn scaled (BN 10000)) (\<lambda>offset.
     and_then (sub val offset) (\<lambda>minimum'.
     and_then (add val offset) (\<lambda>maximum'.
     and_then (lt minimum' Zero) (\<lambda>below.
     and_then (gt maximum' MaxUint256) (\<lambda>above.
       Inr \<lparr>minimum = (if below then Zero else minimum'),
            maximum = (if above then MaxUint256 else maximum')\<rparr>))))))"

section \<open>Constant-product quotes\<close>

definition calculateEtherTokenOutputFromInput :: "jsval \<Rightarrow> jsval \<Rightarrow> jsval \<Rightarrow> js_error + jsval" where
  "calculateEtherTokenOutputFromInput inputAmount inputReserve outputReserve =
     and_then (mul inputAmount (BN 997)) (\<lambda>inputAmountWithFee.
     and_then (mul inputAmountWithFee outputReserve) (\<lambda>numerator.
     and_then (mul inputReserve (BN 1000)) (\<lambda>scaledReserve.
     and_then (add scaledReserve inputAmountWithFee) (\<lambda>denominator.
       div_bn numerator denominator))))"

definition calculateEtherTokenInputFromOutput :: "jsval \<Rightarrow> jsval \<Rightarrow> jsval \<Rightarrow> js_error + jsval" where
  "calculateEtherTokenInputFromOutput outputAmount inputReserve outputReserve =
     and_then (mul inputReserve outputAmount) (\<lambda>product.
     and_then (mul product (BN 1000)) (\<lambda>numerator.
     and_then (sub outputReserve outputAmount) (\<lambda>remaining.
     and_then (mul remaining (BN 997)) (\<lambda>denominator.
     and_then (div_bn numerator denominator) (\<lambda>quotient.
       add quotient One)))))"

section \<open>Exchange rate\<close>

definition getExchangeRate :: "jsval \<Rightarrow> jsval \<Rightarrow> bool \<Rightarrow> js_error + jsval" where
  "getExchangeRate inputValue outputValue invert =
     (let inputDecimals = (18::nat); outputDecimals = (18::nat) in
      if truthy inputValue \<and> inputDecimals \<noteq> 0 \<and> truthy outputValue \<and> outputDecimals \<noteq> 0 then
        (let factor = BN (10 ^ 18) in
         if invert then
           and_then (mul inputValue factor) (\<lambda>scaled.
           and_then (div_bn scaled outputValue) (\<lambda>ratio.
           and_then (mul ratio (BN (10 ^ outputDecimals))) (\<lambda>widened.
             div_bn widened (BN (10 ^ inputDecimals)))))
         else
           and_then (mul outputValue factor) (\<lambda>scaled.
           and_then (div_bn scaled inputValue) (\<lambda>ratio.
           and_then (mul ratio (BN (10 ^ inputDecimals))) (\<lambda>widened.
             div_bn widened (BN (10 ^ outputDecimals))))))
      else Inr Undefined)"

section \<open>Route resolution\<close>

text \<open>
  \<^verbatim>\<open>TOKEN_SYMBOLS\<close> is imported from \<^verbatim>\<open>../../utils\<close>. Symbols are strings; the
  source compares the selected symbol with \<^verbatim>\<open>TOKEN_SYMBOLS.ETH\<close> and with the literal
  \<^verbatim>\<open>'ETH'\<close> alike, so each member is taken to be its own name.
\<close>

type_synonym token_symbol = string

definition TOKEN_SYMBOLS_ETH :: token_symbol where
  "TOKEN_SYMBOLS_ETH = ''ETH''"

definition TOKEN_SYMBOLS_SOCKS :: token_symbol where
  "TOKEN_SYMBOLS_SOCKS = ''SOCKS''"

text \<open>
  The test \<^verbatim>\<open>amount.lte(Zero) || amount.gte(MaxUint256)\<close> that follows every quote of
  \<^verbatim>\<open>calculateAmount\<close>; \<^verbatim>\<open>||\<close> evaluates its right operand only when the left one
  is false.
\<close>

definition out_of_range :: "jsval \<Rightarrow> js_error + bool" where
  "out_of_range amount =
     and_then (lte amount Zero) (\<lambda>low. if low then Inr True else gte amount MaxUint256)"

definition checked :: "jsval \<Rightarrow> js_error + jsval" where
  "checked amount =
     and_then (out_of_range amount) (\<lambda>bad. if bad then Inl PlainError else Inr amount)"

definition calculateAmount ::
  "token_symbol \<Rightarrow> token_symbol \<Rightarrow> jsval \<Rightarrow> jsval \<Rightarrow> jsval \<Rightarrow> jsval \<Rightarrow> jsval \<Rightarrow> js_error + jsval" where
  "calculateAmount inputTokenSymbol outputTokenSymbol SOCKSAmount reserveSOCKSETH reserveSOCKSToken
       reserveSelectedTokenETH reserveSelectedTokenToken =
     (if inputTokenSymbol = TOKEN_SYMBOLS_ETH \<and> outputTokenSymbol = TOKEN_SYMBOLS_SOCKS then
        and_then (calculateEtherTokenInputFromOutput SOCKSAmount reserveSOCKSETH reserveSOCKSToken) checked
      else if inputTokenSymbol = TOKEN_SYMBOLS_SOCKS \<and> outputTokenSymbol = TOKEN_SYMBOLS_ETH then
        and_then (calculateEtherTokenOutputFromInput SOCKSAmount reserveSOCKSToken reserveSOCKSETH) checked
      else
        (let buyingSOCKS = (outputTokenSymbol = TOKEN_SYMBOLS_SOCKS) in
         if buyingSOCKS then
           and_then (calculateEtherTokenInputFromOutput SOCKSAmount reserveSOCKSETH reserveSOCKSToken)
             (\<lambda>intermediateValue.
           and_then (checked intermediateValue) (\<lambda>_.
           and_then (calculateEtherTokenInputFromOutput intermediateValue
                       reserveSelectedTokenToken reserveSelectedTokenETH) checked))
         else
           and_then (calculateEtherTokenOutputFromInput SOCKSAmount reserveSOCKSToken reserveSOCKSETH)
             (\<lambda>intermediateValue.
           and_then (checked intermediateValue) (\<lambda>_.
           and_then (calculateEtherTokenOutputFromInput intermediateValue
                       reserveSelectedTokenETH reserveSelectedTokenToken) checked))))"

section \<open>Trade validation\<close>

text \<open>
  The state of the \<^verbatim>\<open>Main\<close> component that \<^verbatim>\<open>validateBuy\<close> and
  \<^verbatim>\<open>validateSell\<close> close over: the selected symbol and the data the hooks delivered.
\<close>

record main_state =
  selectedTokenSymbol :: token_symbol
  reserveSOCKSETH :: jsval
  reserveSOCKSToken :: jsval
  reserveSelectedTokenETH :: jsval
  reserveSelectedTokenToken :: jsval
  balanceETH :: jsval
  balanceSOCKS :: jsval
  balanceSelectedToken :: jsval
  allowanceSOCKS :: jsval
  allowanceSelectedToken :: jsval

record buy_quote =
  inputValue :: jsval
  maximumInputValue :: jsval
  outputValue :: jsval
  error :: "error_code option"

record sell_quote =
  inputValue :: jsval
  outputValue :: jsval
  minimumOutputValue :: jsval
  error :: "error_code option"

text \<open>An error that leaves a function past every handler keeps whatever code it has: none.\<close>

definition uncaught :: "js_error + 'a \<Rightarrow> thrown + 'a" where
  "uncaught m = (case m of Inl e \<Rightarrow> Inl (Thrown e None) | Inr x \<Rightarrow> Inr x)"

text \<open>A handler that sets \<^verbatim>\<open>error.code\<close> and throws the error again.\<close>

definition tagged :: "error_code \<Rightarrow> js_error + 'a \<Rightarrow> thrown + 'a" where
  "tagged c m = (case m of Inl e \<Rightarrow> Inl (Thrown e (Some c)) | Inr x \<Rightarrow> Inr x)"

text \<open>\<^verbatim>\<open>if (!errorAccumulator) { errorAccumulator = error }\<close>\<close>

definition accumulate :: "error_code option \<Rightarrow> error_code \<Rightarrow> error_code option" where
  "accumulate errorAccumulator e = (case errorAccumulator of None \<Rightarrow> Some e | Some c \<Rightarrow> Some c)"

text \<open>\<^verbatim>\<open>ethers.utils.parseEther('.01')\<close>: a hundredth of a unit of 18 decimals.\<close>

definition parseEther_01 :: jsval where
  "parseEther_01 = BN (10 ^ 16)"

text \<open>
  \<^verbatim>\<open>ethers.utils.parseUnits\<close> belongs to the library. The validators take the outcome
  of \<^verbatim>\<open>parseUnits(numberOfSOCKS, 18)\<close> as their argument \<open>parsed\<close>: the number the
  string denotes at 18 decimals (a negative one included), or \<open>None\<close> where the library
  throws.
\<close>

definition validateBuy :: "main_state \<Rightarrow> int option \<Rightarrow> thrown + buy_quote" where
  "validateBuy st parsed =
     and_then (tagged INVALID_AMOUNT
                 (case parsed of None \<Rightarrow> Inl ParseFault | Some v \<Rightarrow> Inr (BN v)))
       (\<lambda>parsedValue.
     and_then (tagged INVALID_TRADE
                 (calculateAmount (selectedTokenSymbol st) TOKEN_SYMBOLS_SOCKS parsedValue
                    (reserveSOCKSETH st) (reserveSOCKSToken st)
                    (reserveSelectedTokenETH st) (reserveSelectedTokenToken st)))
       (\<lambda>requiredValueInSelectedToken.
     and_then (uncaught (calculateSlippageBounds requiredValueInSelectedToken)) (\<lambda>bounds.
     let maximum = maximum bounds; errorAccumulator = None in
     and_then (uncaught (if truthy (balanceETH st) then lt (balanceETH st) parseEther_01 else Inr False))
       (\<lambda>gasShort.
     let errorAccumulator =
           (if gasShort then accumulate errorAccumulator INSUFFICIENT_ETH_GAS else errorAccumulator) in
     and_then (uncaught (if truthy (balanceSelectedToken st) \<and> truthy maximum
                         then lt (balanceSelectedToken st) maximum else Inr False))
       (\<lambda>balanceShort.
     let errorAccumulator =
           (if balanceShort then accumulate errorAccumulator INSUFFICIENT_SELECTED_TOKEN_BALANCE
            else errorAccumulator) in
     and_then (uncaught (if selectedTokenSymbol st \<noteq> ''ETH''
                         then (if truthy (allowanceSelectedToken st) \<and> truthy maximum
                               then lt (allowanceSelectedToken st) maximum else Inr False)
                         else Inr False))
       (\<lambda>allowanceShort.
     let errorAccumulator =
           (if allowanceShort then accumulate errorAccumulator INSUFFICIENT_ALLOWANCE
            else errorAccumulator) in
     Inr \<lparr>buy_quote.inputValue = requiredValueInSelectedToken,
          maximumInputValue = maximum,
          buy_quote.outputValue = parsedValue,
          buy_quote.error = errorAccumulator\<rparr>))))))"

definition validateSell :: "main_state \<Rightarrow> int option \<Rightarrow> thrown + sell_quote" where
  "validateSell st parsed =
     and_then (tagged INVALID_AMOUNT
                 (case parsed of None \<Rightarrow> Inl ParseFault | Some v \<Rightarrow> Inr (BN v)))
       (\<lambda>parsedValue.
     and_then (tagged INVALID_EXCHANGE
                 (calculateAmount TOKEN_SYMBOLS_SOCKS (selectedTokenSymbol st) parsedValue
                    (reserveSOCKSETH st) (reserveSOCKSToken st)
                    (reserveSelectedTokenETH st) (reserveSelectedTokenToken st)))
       (\<lambda>requiredValueInSelectedToken.
     and_then (uncaught (calculateSlippageBounds requiredValueInSelectedToken)) (\<lambda>bounds.
     let minimum = minimum bounds; errorAccumulator = None in
     and_then (uncaught (lt (balanceETH st) parseEther_01)) (\<lambda>gasShort.
     let errorAccumulator =
           (if gasShort then accumulate errorAccumulator INSUFFICIENT_ETH_GAS else errorAccumulator) in
     and_then (uncaught (lt (balanceSOCKS st) parsedValue)) (\<lambda>balanceShort.
     let errorAccumulator =
           (if balanceShort then accumulate errorAccumulator INSUFFICIENT_SELECTED_TOKEN_BALANCE
            else errorAccumulator) in
     and_then (uncaught (lt (allowanceSOCKS st) parsedValue)) (\<lambda>allowanceShort.
     let errorAccumulator =
           (if allowanceShort then accumulate errorAccumulator INSUFFICIENT_ALLOWANCE
            else errorAccumulator) in
     Inr \<lparr>sell_quote.inputValue = parsedValue,
          sell_quote.outputValue = requiredValueInSelectedToken,
          minimumOutputValue = minimum,
          sell_quote.error = errorAccumulator\<rparr>))))))"

section \<open>The checks of the validators\<close>

text \<open>
  The three conditions that both validators test, in the order of the source: the gas
  balance against a hundredth of a unit, the balance against the amount to pay, the
  allowance against the amount to pay. A condition holds when the datum is present and
  less than the bound. \<open>buy_failures\<close> and \<open>sell_failures\<close> list the codes of all
  the conditions that hold, \<open>first_error\<close> is the head of such a list.
\<close>

fun below :: "jsval \<Rightarrow> jsval \<Rightarrow> bool" where
  "below (BN a) (BN b) = (a < b)"
| "below _ _ = False"

definition buy_failures :: "main_state \<Rightarrow> jsval \<Rightarrow> error_code list" where
  "buy_failures st bound =
     (if below (balanceETH st) parseEther_01 then [INSUFFICIENT_ETH_GAS] else []) @
     (if below (balanceSelectedToken st) bound then [INSUFFICIENT_SELECTED_TOKEN_BALANCE] else []) @
     (if selectedTokenSymbol st \<noteq> ''ETH'' \<and> below (allowanceSelectedToken st) bound
      then [INSUFFICIENT_ALLOWANCE] else [])"

definition sell_failures :: "main_state \<Rightarrow> jsval \<Rightarrow> error_code list" where
  "sell_failures st parsedValue =
     (if below (balanceETH st) parseEther_01 then [INSUFFICIENT_ETH_GAS] else []) @
     (if below (balanceSOCKS st) parsedValue then [INSUFFICIENT_SELECTED_TOKEN_BALANCE] else []) @
     (if below (allowanceSOCKS st) parsedValue then [INSUFFICIENT_ALLOWANCE] else [])"

definition first_error :: "error_code list \<Rightarrow> error_code option" where
  "first_error es = (case es of [] \<Rightarrow> None | e # _ \<Rightarrow> Some e)"

text \<open>
  A state for the examples: ETH selected, a SOCKS pool of 1000 against 50, a pool of the
  selected token of 100 against 5000, one unit of gas, five SOCKS held and approved.
\<close>

definition example_state :: main_state where
  "example_state =
     \<lparr>selectedTokenSymbol = ''ETH'', reserveSOCKSETH = BN 1000, reserveSOCKSToken = BN 50,
      reserveSelectedTokenETH = BN 100, reserveSelectedTokenToken = BN 5000,
      balanceETH = BN (10 ^ 18), balanceSOCKS = BN 5, balanceSelectedToken = BN (10 ^ 18),
      allowanceSOCKS = BN 5, allowanceSelectedToken = BN (10 ^ 18)\<rparr>"

section \<open>Arithmetic of the quotes\<close>

text \<open>
  The clamp of the specification, \<open>clamp(value, min, max)\<close>, to compare the slippage
  bounds of the source with.
\<close>

definition spec_clamp :: "int \<Rightarrow> int \<Rightarrow> int \<Rightarrow> int" where
  "spec_clamp v lo hi = max lo (min hi v)"

lemma quot_nonneg_pos: "0 \<le> a \<Longrightarrow> 0 < b \<Longrightarrow> quot a b = a div b"
  by (simp add: quot_def sgn_if)

lemma div_le_of_le_mult:
  fixes a x d :: int
  assumes "0 < d" "a \<le> x * d"
  shows "a div d \<le> x"
proof -
  have "a div d \<le> (x * d) div d" using assms by (intro zdiv_mono1) auto
  then show ?thesis using assms by simp
qed

lemma le_div_of_mult_le:
  fixes a q d :: int
  assumes "0 < d" "q * d \<le> a"
  shows "q \<le> a div d"
proof -
  have "(q * d) div d \<le> a div d" using assms by (intro zdiv_mono1) auto
  then show ?thesis using assms by simp
qed

lemma div_mult_le_int:
  fixes a d :: int
  assumes "0 < d"
  shows "(a div d) * d \<le> a"
proof -
  have "0 \<le> a mod d" using assms by simp
  moreover have "a = (a div d) * d + a mod d" by simp
  ultimately show ?thesis by linarith
qed

text \<open>The quotes on present values: the only call that can throw is the division.\<close>

lemma reverse_BN:
  "calculateEtherTokenInputFromOutput (BN oa) (BN ir) (BN ro) =
     (if (ro - oa) * 997 = 0 then Inl NumericFault
      else Inr (BN (quot (ir * oa * 1000) ((ro - oa) * 997) + 1)))"
  by (simp add: calculateEtherTokenInputFromOutput_def and_then_def One_def)

lemma forward_BN:
  "calculateEtherTokenOutputFromInput (BN x) (BN ri) (BN ro) =
     (if ri * 1000 + x * 997 = 0 then Inl NumericFault
      else Inr (BN (quot (x * 997 * ro) (ri * 1000 + x * 997))))"
  by (simp add: calculateEtherTokenOutputFromInput_def and_then_def)

lemma slippage_BN:
  "calculateSlippageBounds (BN x) =
     Inr \<lparr>minimum = (if x - quot (x * 200) 10000 < 0 then BN 0 else BN (x - quot (x * 200) 10000)),
          maximum = (if x + quot (x * 200) 10000 > uint256_max then BN uint256_max
                     else BN (x + quot (x * 200) 10000))\<rparr>"
  by (simp add: calculateSlippageBounds_def and_then_def ALLOWED_SLIPPAGE_def Zero_def MaxUint256_def)

lemma checked_BN:
  "checked (BN z) = (if z \<le> 0 \<or> uint256_max \<le> z then Inl PlainError else Inr (BN z))"
  by (simp add: checked_def out_of_range_def and_then_def Zero_def MaxUint256_def)

lemma reverse_pos:
  assumes "0 \<le> oa" "oa < ro" "0 \<le> ir"
  shows "calculateEtherTokenInputFromOutput (BN oa) (BN ir) (BN ro) =
           Inr (BN ((ir * oa * 1000) div ((ro - oa) * 997) + 1))"
proof -
  have d: "0 < (ro - oa) * 997" using assms by simp
  have n: "0 \<le> ir * oa * 1000" using assms by simp
  show ?thesis using d n by (simp add: reverse_BN quot_nonneg_pos)
qed

lemma forward_pos:
  assumes "0 \<le> x" "0 < ri" "0 \<le> ro"
  shows "calculateEtherTokenOutputFromInput (BN x) (BN ri) (BN ro) =
           Inr (BN ((x * 997 * ro) div (ri * 1000 + x * 997)))"
proof -
  have d: "0 < ri * 1000 + x * 997" using assms by (simp add: add_pos_nonneg)
  have n: "0 \<le> x * 997 * ro" using assms by simp
  show ?thesis using d n by (simp add: forward_BN quot_nonneg_pos)
qed

text \<open>
  The rounding of the reverse quote serves the other order of composition: the input it
  asks for buys at least the requested output.
\<close>

lemma reverse_then_forward:
  assumes "0 < ri" "0 \<le> y" "y < ro"
  shows "\<exists>x w. calculateEtherTokenInputFromOutput (BN y) (BN ri) (BN ro) = Inr (BN x) \<and>
               calculateEtherTokenOutputFromInput (BN x) (BN ri) (BN ro) = Inr (BN w) \<and> y \<le> w"
proof -
  define d where "d = (ro - y) * 997"
  define n where "n = ri * y * 1000"
  define x where "x = n div d + 1"
  have d: "0 < d" using assms by (simp add: d_def)
  have n: "0 \<le> n" using assms by (simp add: n_def)
  have x1: "1 \<le> x" unfolding x_def using d n by (simp add: pos_imp_zdiv_nonneg_iff)
  have md: "n mod d < d" using d by (rule pos_mod_bound)
  have "n = (n div d) * d + n mod d" by simp
  with md have "n < (n div d) * d + d" by linarith
  also have "\<dots> = x * d" by (simp add: x_def algebra_simps)
  finally have nx: "n < x * d" .
  define D where "D = ri * 1000 + x * 997"
  have D: "0 < D" using assms x1 by (simp add: D_def add_pos_nonneg)
  have "y * D \<le> x * 997 * ro"
    using nx by (simp add: n_def d_def D_def algebra_simps)
  then have "y \<le> (x * 997 * ro) div D" using D by (intro le_div_of_mult_le)
  moreover have "calculateEtherTokenInputFromOutput (BN y) (BN ri) (BN ro) = Inr (BN x)"
    unfolding x_def n_def d_def using assms by (intro reverse_pos) auto
  moreover have "calculateEtherTokenOutputFromInput (BN x) (BN ri) (BN ro) =
                   Inr (BN ((x * 997 * ro) div D))"
    unfolding D_def using assms x1 by (intro forward_pos) auto
  ultimately show ?thesis by blast
qed

section \<open>The reverse quote\<close>

text \<open>
  C1: for \<open>0 \<le> outputAmount < outputReserve\<close> and \<open>0 \<le> inputReserve\<close> the reverse quote
  returns \<open>floor(inputReserve * outputAmount * 10000 / ((outputReserve - outputAmount) *
  (10000 - 30))) + 1\<close>. The source multiplies by 1000 and 997; the common factor 10 cancels.
  One is added whether or not the division is exact.
\<close>

theorem reverse_quote_formula:
  assumes "0 \<le> oa" "oa < ro" "0 \<le> ir"
  shows "calculateEtherTokenInputFromOutput (BN oa) (BN ir) (BN ro) =
           Inr (BN ((ir * oa * 10000) div ((ro - oa) * (10000 - 30)) + 1))"
proof -
  have d: "0 < (ro - oa) * 997" using assms by simp
  have n: "0 \<le> ir * oa * 1000" using assms by simp
  have "(ir * oa * 10000) div ((ro - oa) * (10000 - 30)) =
          (10 * (ir * oa * 1000)) div (10 * ((ro - oa) * 997))"
    by (simp add: algebra_simps)
  also have "\<dots> = (ir * oa * 1000) div ((ro - oa) * 997)"
    by (rule div_mult_mult1) simp
  finally show ?thesis using d n by (simp add: reverse_BN quot_nonneg_pos)
qed

text \<open>
  An exact division: \<open>997 * 1 * 1000 = (1001 - 1) * 997\<close>, the quotient is 1 and the
  quote is 2.
\<close>

theorem reverse_quote_formula_witness:
  "(0::int) \<le> 1 \<and> (1::int) < 1001 \<and> (0::int) \<le> 997 \<and>
   (997 * 1 * 10000) mod ((1001 - 1) * (10000 - 30)) = (0::int) \<and>
   calculateEtherTokenInputFromOutput (BN 1) (BN 997) (BN 1001) = Inr (BN 2)"
  using reverse_quote_formula [of 1 1001 997] by simp

text \<open>
  C9: under the same precondition the reverse quote is at least 1, so in the direct buy
  of \<open>calculateAmount\<close> the test \<open>amount.lte(Zero)\<close> is false and only the upper bound
  can reject the amount.
\<close>

theorem reverse_quote_positive:
  assumes "0 \<le> oa" "oa < ro" "0 \<le> ir"
  shows "\<exists>z. calculateEtherTokenInputFromOutput (BN oa) (BN ir) (BN ro) = Inr (BN z) \<and> 1 \<le> z \<and>
             lte (BN z) Zero = Inr False \<and>
             calculateAmount TOKEN_SYMBOLS_ETH TOKEN_SYMBOLS_SOCKS (BN oa) (BN ir) (BN ro) rse rst =
               (if uint256_max \<le> z then Inl PlainError else Inr (BN z))"
proof -
  define z where "z = (ir * oa * 1000) div ((ro - oa) * 997) + 1"
  have d: "0 < (ro - oa) * 997" using assms by simp
  have n: "0 \<le> ir * oa * 1000" using assms by simp
  have "0 \<le> (ir * oa * 1000) div ((ro - oa) * 997)"
    using d n by (simp add: pos_imp_zdiv_nonneg_iff)
  then have z1: "1 \<le> z" by (simp add: z_def)
  have r: "calculateEtherTokenInputFromOutput (BN oa) (BN ir) (BN ro) = Inr (BN z)"
    unfolding z_def using assms by (rule reverse_pos)
  have "calculateAmount TOKEN_SYMBOLS_ETH TOKEN_SYMBOLS_SOCKS (BN oa) (BN ir) (BN ro) rse rst =
               (if uint256_max \<le> z then Inl PlainError else Inr (BN z))"
    using z1 by (simp add: calculateAmount_def r and_then_def checked_BN)
  moreover have "lte (BN z) Zero = Inr False" using z1 by (simp add: Zero_def)
  ultimately show ?thesis using r z1 by blast
qed

theorem reverse_quote_positive_witness:
  "(0::int) \<le> 1 \<and> (1::int) < 50 \<and> (0::int) \<le> 1000 \<and>
   calculateEtherTokenInputFromOutput (BN 1) (BN 1000) (BN 50) = Inr (BN 21) \<and>
   calculateAmount TOKEN_SYMBOLS_ETH TOKEN_SYMBOLS_SOCKS (BN 1) (BN 1000) (BN 50) Undefined Undefined =
     Inr (BN 21)"
  using reverse_quote_positive [of 1 50 1000 Undefined Undefined]
  by (auto simp add: reverse_BN quot_def uint256_max_def split: if_splits)

section \<open>The forward quote\<close>

text \<open>
  C8: for positive reserves the forward quote is monotone in the input amount: for
  amounts \<open>0 \<le> a \<le> b\<close> the output quoted for \<open>a\<close> is at most the one quoted for \<open>b\<close>.
\<close>

theorem forward_quote_monotone:
  assumes "0 < ri" "0 < ro" "0 \<le> a" "a \<le> b"
  shows "\<exists>ya yb. calculateEtherTokenOutputFromInput (BN a) (BN ri) (BN ro) = Inr (BN ya) \<and>
                 calculateEtherTokenOutputFromInput (BN b) (BN ri) (BN ro) = Inr (BN yb) \<and>
                 ya \<le> yb"
proof -
  define da where "da = ri * 1000 + a * 997"
  define db where "db = ri * 1000 + b * 997"
  define q where "q = (a * 997 * ro) div da"
  have da: "0 < da" and db: "0 < db" using assms by (simp_all add: da_def db_def add_pos_nonneg)
  have qa: "q * da \<le> a * 997 * ro" unfolding q_def using da by (rule div_mult_le_int)
  have cross: "(a * 997 * ro) * db \<le> (b * 997 * ro) * da"
  proof -
    have "a * (ri * ro) \<le> b * (ri * ro)" using assms by (intro mult_right_mono) auto
    then show ?thesis by (simp add: da_def db_def algebra_simps)
  qed
  have "(q * db) * da = (q * da) * db" by (simp add: algebra_simps)
  also have "\<dots> \<le> (a * 997 * ro) * db" using qa db by (intro mult_right_mono) auto
  also have "\<dots> \<le> (b * 997 * ro) * da" by (rule cross)
  finally have "q * db \<le> b * 997 * ro" using da by (simp add: mult_le_cancel_right)
  then have "q \<le> (b * 997 * ro) div db" using db by (intro le_div_of_mult_le)
  then show ?thesis
    using assms by (simp add: forward_pos q_def da_def db_def)
qed

theorem forward_quote_monotone_witness:
  "(0::int) < 1000 \<and> (0::int) < 100 \<and> (0::int) \<le> 10 \<and> (10::int) \<le> 500 \<and>
   calculateEtherTokenOutputFromInput (BN 10) (BN 1000) (BN 100) = Inr (BN 0) \<and>
   calculateEtherTokenOutputFromInput (BN 500) (BN 1000) (BN 100) = Inr (BN 33) \<and>
   (0::int) \<le> 33"
  using forward_quote_monotone [of 1000 100 10 500]
  by (simp add: forward_BN quot_def)

text \<open>
  C2, as stated: for positive reserves and \<open>0 < inputAmount < r_in\<close>, the reverse quote
  of the forward quote is at least \<open>inputAmount\<close>. It is not: the forward quote
  truncates, and the reverse quote of the truncated output can fall short of the input.
  With reserves 1000 and 100, the input 105 buys 9, and 9 costs 100.
\<close>

theorem round_trip_counterexample:
  "calculateEtherTokenOutputFromInput (BN 105) (BN 1000) (BN 100) = Inr (BN 9) \<and>
   calculateEtherTokenInputFromOutput (BN 9) (BN 1000) (BN 100) = Inr (BN 100) \<and>
   \<not> ((105::int) \<le> 100)"
  by (simp add: forward_BN reverse_BN quot_def)

text \<open>
  C2, amended: for positive reserves and \<open>0 < inputAmount < r_in\<close> both quotes succeed,
  the forward output \<open>y\<close> stays below the output reserve, and the reverse quote \<open>z\<close> of
  \<open>y\<close> satisfies \<open>1 \<le> z \<le> inputAmount + 1\<close>; where the forward division is exact,
  \<open>z = inputAmount + 1\<close>.
\<close>

theorem round_trip_bounds:
  assumes "0 < ri" "0 < ro" "0 < x" "x < ri"
  shows "\<exists>y z. calculateEtherTokenOutputFromInput (BN x) (BN ri) (BN ro) = Inr (BN y) \<and>
               0 \<le> y \<and> y < ro \<and>
               calculateEtherTokenInputFromOutput (BN y) (BN ri) (BN ro) = Inr (BN z) \<and>
               1 \<le> z \<and> z \<le> x + 1 \<and>
               ((x * 997 * ro) mod (ri * 1000 + x * 997) = 0 \<longrightarrow> z = x + 1)"
proof -
  define D where "D = ri * 1000 + x * 997"
  define N where "N = x * 997 * ro"
  define y where "y = N div D"
  define z where "z = (ri * y * 1000) div ((ro - y) * 997) + 1"
  have D: "0 < D" using assms by (simp add: D_def add_pos_nonneg)
  have N: "0 \<le> N" using assms by (simp add: N_def)
  have y0: "0 \<le> y" unfolding y_def using D N by (simp add: pos_imp_zdiv_nonneg_iff)
  have yD: "y * D \<le> N" unfolding y_def using D by (rule div_mult_le_int)
  have "N < ro * D"
  proof -
    have "0 < ro * (ri * 1000)" using assms by simp
    then show ?thesis by (simp add: N_def D_def algebra_simps)
  qed
  with yD have "y * D < ro * D" by simp
  then have yro: "y < ro" using D by (simp add: mult_less_cancel_right)
  have f: "calculateEtherTokenOutputFromInput (BN x) (BN ri) (BN ro) = Inr (BN y)"
    unfolding y_def N_def D_def using assms by (intro forward_pos) auto
  have r: "calculateEtherTokenInputFromOutput (BN y) (BN ri) (BN ro) = Inr (BN z)"
    unfolding z_def using y0 yro assms by (intro reverse_pos) auto
  have d: "0 < (ro - y) * 997" using yro by simp
  have "0 \<le> (ri * y * 1000) div ((ro - y) * 997)"
    using d y0 assms by (simp add: pos_imp_zdiv_nonneg_iff)
  then have z1: "1 \<le> z" by (simp add: z_def)
  have le: "ri * y * 1000 \<le> x * ((ro - y) * 997)"
    using yD by (simp add: N_def D_def algebra_simps)
  have "(ri * y * 1000) div ((ro - y) * 997) \<le> x"
    using d le by (rule div_le_of_le_mult)
  then have zx: "z \<le> x + 1" by (simp add: z_def)
  have ex: "z = x + 1" if "N mod D = 0"
  proof -
    from that have "y * D = N" unfolding y_def by (simp add: mod_eq_0_iff_dvd)
    then have "ri * y * 1000 = x * ((ro - y) * 997)"
      by (simp add: N_def D_def algebra_simps)
    then have "(ri * y * 1000) div ((ro - y) * 997) = x" using d by simp
    then show ?thesis by (simp add: z_def)
  qed
  show ?thesis using f r y0 yro z1 zx ex unfolding N_def D_def by blast
qed

text \<open>
  An exact forward division: with reserves 1994 and 5982 the input 1000 buys
  \<open>997000 * 5982 / 2991000 = 1994\<close>, and the reverse quote of 1994 is
  \<open>1994 * 1994 * 1000 / (3988 * 997) + 1 = 1001\<close>.
\<close>

theorem round_trip_bounds_witness:
  "(0::int) < 1994 \<and> (0::int) < 5982 \<and> (0::int) < 1000 \<and> (1000::int) < 1994 \<and>
   (1000 * 997 * 5982) mod (1994 * 1000 + 1000 * 997) = (0::int) \<and>
   calculateEtherTokenOutputFromInput (BN 1000) (BN 1994) (BN 5982) = Inr (BN 1994) \<and>
   calculateEtherTokenInputFromOutput (BN 1994) (BN 1994) (BN 5982) = Inr (BN 1001)"
  using round_trip_bounds [of 1994 5982 1000]
  by (simp add: forward_BN reverse_BN quot_def)

section \<open>The slippage band\<close>

text \<open>
  C7: \<open>calculateSlippageBounds\<close> returns a band for every number, and for
  \<open>0 \<le> x \<le> MaxUint256\<close> the band is
  \<open>minimum = clamp(x - floor(x * 200 / 10000), 0, MaxUint256)\<close>,
  \<open>maximum = clamp(x + floor(x * 200 / 10000), 0, MaxUint256)\<close>, with
  \<open>minimum \<le> x \<le> maximum\<close>.
\<close>

theorem slippage_band:
  "(\<exists>b. calculateSlippageBounds (BN v) = Inr b) \<and>
   (0 \<le> x \<and> x \<le> uint256_max \<longrightarrow>
      calculateSlippageBounds (BN x) =
        Inr \<lparr>minimum = BN (spec_clamp (x - (x * 200) div 10000) 0 uint256_max),
             maximum = BN (spec_clamp (x + (x * 200) div 10000) 0 uint256_max)\<rparr> \<and>
      spec_clamp (x - (x * 200) div 10000) 0 uint256_max \<le> x \<and>
      x \<le> spec_clamp (x + (x * 200) div 10000) 0 uint256_max)"
proof (intro conjI impI)
  show "\<exists>b. calculateSlippageBounds (BN v) = Inr b" by (simp add: slippage_BN)
next
  assume h: "0 \<le> x \<and> x \<le> uint256_max"
  define off where "off = (x * 200) div 10000"
  have q: "quot (x * 200) 10000 = off" unfolding off_def using h by (intro quot_nonneg_pos) auto
  have o0: "0 \<le> off" unfolding off_def using h by (simp add: pos_imp_zdiv_nonneg_iff)
  have ox: "off \<le> x" unfolding off_def using h by (intro div_le_of_le_mult) auto
  show "calculateSlippageBounds (BN x) =
        Inr \<lparr>minimum = BN (spec_clamp (x - (x * 200) div 10000) 0 uint256_max),
             maximum = BN (spec_clamp (x + (x * 200) div 10000) 0 uint256_max)\<rparr>"
    unfolding slippage_BN q off_def[symmetric] using h o0 ox
    by (auto simp add: spec_clamp_def min_def max_def)
  show "spec_clamp (x - (x * 200) div 10000) 0 uint256_max \<le> x"
    unfolding off_def[symmetric] using h o0 ox by (auto simp add: spec_clamp_def min_def max_def)
  show "x \<le> spec_clamp (x + (x * 200) div 10000) 0 uint256_max"
    unfolding off_def[symmetric] using h o0 ox by (auto simp add: spec_clamp_def min_def max_def)
qed

theorem slippage_band_witness:
  "(\<exists>b. calculateSlippageBounds (BN (- 5)) = Inr b) \<and>
   (0::int) \<le> 1000 \<and> 1000 \<le> uint256_max \<and>
   calculateSlippageBounds (BN 1000) = Inr \<lparr>minimum = BN 980, maximum = BN 1020\<rparr>"
  using slippage_band [of "- 5" 1000]
  by (simp add: uint256_max_def spec_clamp_def)

section \<open>The validators, case by case\<close>

text \<open>
  What the validators return, read off their definitions: the parse, the route and the
  slippage bounds decide whether a quote is returned, and the quote holds the first of
  the failing checks.
\<close>

lemma slippage_Undefined: "calculateSlippageBounds Undefined = Inl TypeError"
  by (simp add: calculateSlippageBounds_def and_then_def)

lemma slippage_result:
  assumes "calculateSlippageBounds r = Inr b"
  shows "\<exists>lo hi. minimum b = BN lo \<and> maximum b = BN hi \<and> hi \<le> uint256_max"
proof (cases r)
  case Undefined
  with assms show ?thesis by (simp add: slippage_Undefined)
next
  case (BN x)
  with assms have "b = \<lparr>minimum = (if x - quot (x * 200) 10000 < 0 then BN 0 else BN (x - quot (x * 200) 10000)),
          maximum = (if x + quot (x * 200) 10000 > uint256_max then BN uint256_max
                     else BN (x + quot (x * 200) 10000))\<rparr>"
    by (simp add: slippage_BN)
  then show ?thesis by auto
qed

lemma validateBuy_cases:
  "validateBuy st p =
     (case p of None \<Rightarrow> Inl (Thrown ParseFault (Some INVALID_AMOUNT))
      | Some v \<Rightarrow>
        (case calculateAmount (selectedTokenSymbol st) TOKEN_SYMBOLS_SOCKS (BN v)
                (reserveSOCKSETH st) (reserveSOCKSToken st)
                (reserveSelectedTokenETH st) (reserveSelectedTokenToken st) of
           Inl e \<Rightarrow> Inl (Thrown e (Some INVALID_TRADE))
         | Inr req \<Rightarrow>
           (case calculateSlippageBounds req of
              Inl e \<Rightarrow> Inl (Thrown e None)
            | Inr b \<Rightarrow> Inr \<lparr>buy_quote.inputValue = req, maximumInputValue = maximum b,
                            buy_quote.outputValue = BN v,
                            buy_quote.error = first_error (buy_failures st (maximum b))\<rparr>)))"
proof (cases p)
  case None
  then show ?thesis by (simp add: validateBuy_def and_then_def tagged_def)
next
  case (Some v)
  show ?thesis
  proof (cases "calculateAmount (selectedTokenSymbol st) TOKEN_SYMBOLS_SOCKS (BN v)
                (reserveSOCKSETH st) (reserveSOCKSToken st)
                (reserveSelectedTokenETH st) (reserveSelectedTokenToken st)")
    case (Inl e)
    with Some show ?thesis by (simp add: validateBuy_def and_then_def tagged_def)
  next
    case (Inr req)
    show ?thesis
    proof (cases "calculateSlippageBounds req")
      case (Inl e)
      with Some Inr show ?thesis by (simp add: validateBuy_def and_then_def tagged_def uncaught_def)
    next
      case r: (Inr b)
      then obtain hi where hi: "maximum b = BN hi" using slippage_result by blast
      have g: "parseEther_01 = BN (10 ^ 16)" by (simp add: parseEther_01_def)
      show ?thesis using Some Inr r
        unfolding validateBuy_def
        by (cases "balanceETH st"; cases "balanceSelectedToken st"; cases "allowanceSelectedToken st")
           (simp_all add: and_then_def tagged_def uncaught_def Let_def hi g
              buy_failures_def accumulate_def first_error_def)
    qed
  qed
qed

lemma validateSell_cases:
  "validateSell st p =
     (case p of None \<Rightarrow> Inl (Thrown ParseFault (Some INVALID_AMOUNT))
      | Some v \<Rightarrow>
        (case calculateAmount TOKEN_SYMBOLS_SOCKS (selectedTokenSymbol st) (BN v)
                (reserveSOCKSETH st) (reserveSOCKSToken st)
                (reserveSelectedTokenETH st) (reserveSelectedTokenToken st) of
           Inl e \<Rightarrow> Inl (Thrown e (Some INVALID_EXCHANGE))
         | Inr req \<Rightarrow>
           (case calculateSlippageBounds req of
              Inl e \<Rightarrow> Inl (Thrown e None)
            | Inr b \<Rightarrow>
               if balanceETH st = Undefined \<or> balanceSOCKS st = Undefined \<or> allowanceSOCKS st = Undefined
               then Inl (Thrown TypeError None)
               else Inr \<lparr>sell_quote.inputValue = BN v, sell_quote.outputValue = req,
                         minimumOutputValue = minimum b,
                         sell_quote.error = first_error (sell_failures st (BN v))\<rparr>)))"
proof (cases p)
  case None
  then show ?thesis by (simp add: validateSell_def and_then_def tagged_def)
next
  case (Some v)
  show ?thesis
  proof (cases "calculateAmount TOKEN_SYMBOLS_SOCKS (selectedTokenSymbol st) (BN v)
                (reserveSOCKSETH st) (reserveSOCKSToken st)
                (reserveSelectedTokenETH st) (reserveSelectedTokenToken st)")
    case (Inl e)
    with Some show ?thesis by (simp add: validateSell_def and_then_def tagged_def)
  next
    case (Inr req)
    show ?thesis
    proof (cases "calculateSlippageBounds req")
      case (Inl e)
      with Some Inr show ?thesis by (simp add: validateSell_def and_then_def tagged_def uncaught_def)
    next
      case r: (Inr b)
      have g: "parseEther_01 = BN (10 ^ 16)" by (simp add: parseEther_01_def)
      show ?thesis using Some Inr r
        unfolding validateSell_def
        by (cases "balanceETH st"; cases "balanceSOCKS st"; cases "allowanceSOCKS st")
           (simp_all add: and_then_def tagged_def uncaught_def Let_def g
              sell_failures_def accumulate_def first_error_def)
    qed
  qed
qed

lemma quot_pos_neg:
  assumes "0 < a" "b < 0" "- b \<le> a"
  shows "quot a b \<le> - 1"
proof -
  have "1 \<le> a div (- b)" using assms by (intro le_div_of_mult_le) auto
  moreover have "quot a b = - (a div (- b))" using assms by (simp add: quot_def sgn_if)
  ultimately show ?thesis by simp
qed

lemma reverse_exhausted:
  assumes "0 < ir" "0 \<le> ro" "ro < oa"
  shows "\<exists>z. calculateEtherTokenInputFromOutput (BN oa) (BN ir) (BN ro) = Inr (BN z) \<and> z \<le> 0"
proof -
  have b: "(ro - oa) * 997 < 0" using assms by simp
  have "0 < ir * oa" using assms by simp
  then have a: "0 < ir * oa * 1000" by simp
  define t where "t = ir * oa"
  have "1 * oa \<le> ir * oa" using assms by (intro mult_right_mono) auto
  then have "oa \<le> t" by (simp add: t_def)
  then have "997 * oa - 997 * ro \<le> 1000 * t" using assms by linarith
  then have "- ((ro - oa) * 997) \<le> ir * oa * 1000" by (simp add: t_def algebra_simps)
  with a b have "quot (ir * oa * 1000) ((ro - oa) * 997) \<le> - 1" by (rule quot_pos_neg)
  then show ?thesis using b by (simp add: reverse_BN)
qed

lemma buy_route_exhausted:
  assumes "0 < ir" "0 \<le> ro" "ro \<le> oa"
  shows "calculateAmount symbol TOKEN_SYMBOLS_SOCKS (BN oa) (BN ir) (BN ro) rse rst =
           Inl (if oa = ro then NumericFault else PlainError)"
proof (cases "oa = ro")
  case True
  then have "calculateEtherTokenInputFromOutput (BN oa) (BN ir) (BN ro) = Inl NumericFault"
    by (simp add: reverse_BN)
  then show ?thesis using True
    by (simp add: calculateAmount_def and_then_def TOKEN_SYMBOLS_SOCKS_def TOKEN_SYMBOLS_ETH_def)
next
  case False
  then have "ro < oa" using assms by simp
  with assms obtain z where
    z: "calculateEtherTokenInputFromOutput (BN oa) (BN ir) (BN ro) = Inr (BN z)" "z \<le> 0"
    using reverse_exhausted by blast
  then show ?thesis using False
    by (simp add: calculateAmount_def and_then_def checked_BN TOKEN_SYMBOLS_SOCKS_def
          TOKEN_SYMBOLS_ETH_def)
qed

lemma checked_result:
  assumes "checked a = Inr r"
  obtains z where "r = BN z"
proof (cases a)
  case Undefined
  with assms show ?thesis by (simp add: checked_def out_of_range_def and_then_def)
next
  case (BN z)
  with assms have "r = BN z" by (simp add: checked_BN split: if_splits)
  then show ?thesis by (rule that)
qed

lemma route_result:
  assumes "calculateAmount i out amt r1 r2 r3 r4 = Inr r"
  obtains z where "r = BN z"
  using assms unfolding calculateAmount_def and_then_def Let_def
  by (auto split: if_splits sum.splits elim: checked_result)

lemma below_max: "hi \<le> uint256_max \<Longrightarrow> below MaxUint256 (BN hi) = False"
  by (simp add: MaxUint256_def)

lemma below_gas: "below parseEther_01 parseEther_01 = False"
  by (simp add: parseEther_01_def)

lemma buy_failures_absent:
  assumes "calculateSlippageBounds req = Inr b"
  shows "balanceETH st = Undefined \<Longrightarrow>
           buy_failures (st\<lparr>balanceETH := parseEther_01\<rparr>) (maximum b) = buy_failures st (maximum b)"
    and "balanceSelectedToken st = Undefined \<Longrightarrow>
           buy_failures (st\<lparr>balanceSelectedToken := MaxUint256\<rparr>) (maximum b) = buy_failures st (maximum b)"
    and "allowanceSelectedToken st = Undefined \<Longrightarrow>
           buy_failures (st\<lparr>allowanceSelectedToken := MaxUint256\<rparr>) (maximum b) = buy_failures st (maximum b)"
proof -
  obtain hi where hi: "maximum b = BN hi" "hi \<le> uint256_max"
    using slippage_result [OF assms] by blast
  show "balanceETH st = Undefined \<Longrightarrow>
           buy_failures (st\<lparr>balanceETH := parseEther_01\<rparr>) (maximum b) = buy_failures st (maximum b)"
    by (simp add: buy_failures_def below_gas)
  show "balanceSelectedToken st = Undefined \<Longrightarrow>
           buy_failures (st\<lparr>balanceSelectedToken := MaxUint256\<rparr>) (maximum b) = buy_failures st (maximum b)"
    using hi by (simp add: buy_failures_def below_max)
  show "allowanceSelectedToken st = Undefined \<Longrightarrow>
           buy_failures (st\<lparr>allowanceSelectedToken := MaxUint256\<rparr>) (maximum b) = buy_failures st (maximum b)"
    using hi by (simp add: buy_failures_def below_max)
qed

lemma getExchangeRate_BN:
  "getExchangeRate (BN a) (BN b) invert =
     (if invert then (if b = 0 then Inl NumericFault
                   else Inr (BN (quot (quot (a * 10 ^ 18) b * 10 ^ 18) (10 ^ 18))))
      else (if a = 0 then Inl NumericFault
            else Inr (BN (quot (quot (b * 10 ^ 18) a * 10 ^ 18) (10 ^ 18)))))"
  by (simp add: getExchangeRate_def and_then_def Let_def)

lemma quot_zero_left: "quot 0 b = 0"
  by (simp add: quot_def)

section \<open>A buy beyond the reserve\<close>

text \<open>
  C3, as stated: a reverse quote with \<open>outputAmount \<ge> outputReserve\<close> fails with
  \<open>INVALID_TRADE\<close> through a guard, without evaluating the formula. The source has no
  such guard: \<open>calculateEtherTokenInputFromOutput\<close> evaluates the formula on every
  input, and asked for 2 of a reserve of 1 against an input reserve of 1000 it returns
  \<open>-2005\<close>. Against an empty input reserve the quotient is 0, the quote is 1, and
  \<open>validateBuy\<close> returns a quote.
\<close>

theorem buy_beyond_reserve_counterexample:
  "calculateEtherTokenInputFromOutput (BN 2) (BN 1000) (BN 1) = Inr (BN (- 2005)) \<and>
   validateBuy (example_state\<lparr>reserveSOCKSETH := BN 0, reserveSOCKSToken := BN 1\<rparr>) (Some 2) =
     Inr \<lparr>buy_quote.inputValue = BN 1, maximumInputValue = BN 1, buy_quote.outputValue = BN 2,
          buy_quote.error = None\<rparr>"
  by (simp add: validateBuy_cases example_state_def calculateAmount_def TOKEN_SYMBOLS_ETH_def
        TOKEN_SYMBOLS_SOCKS_def reverse_BN and_then_def checked_BN slippage_BN quot_def
        uint256_max_def buy_failures_def first_error_def parseEther_01_def)

text \<open>
  C3, amended: with a positive input reserve, a non-negative output reserve and
  \<open>outputAmount \<ge> outputReserve\<close>, \<open>validateBuy\<close> fails with \<open>INVALID_TRADE\<close>,
  and the failure comes from evaluating the formula: where the two are equal the
  formula's own division throws on the zero denominator, and where the amount is larger
  the formula returns a value that is not positive, which the range check of
  \<open>calculateAmount\<close> rejects.
\<close>

theorem buy_beyond_reserve_fails:
  assumes "reserveSOCKSETH st = BN ir" "reserveSOCKSToken st = BN ro" "0 < ir" "0 \<le> ro" "ro \<le> oa"
  shows "validateBuy st (Some oa) =
           Inl (Thrown (if oa = ro then NumericFault else PlainError) (Some INVALID_TRADE)) \<and>
         (oa = ro \<longrightarrow> calculateEtherTokenInputFromOutput (BN oa) (BN ir) (BN ro) = Inl NumericFault) \<and>
         (ro < oa \<longrightarrow> (\<exists>z. calculateEtherTokenInputFromOutput (BN oa) (BN ir) (BN ro) = Inr (BN z) \<and> z \<le> 0))"
proof (intro conjI impI)
  show "validateBuy st (Some oa) =
           Inl (Thrown (if oa = ro then NumericFault else PlainError) (Some INVALID_TRADE))"
    using assms by (simp add: validateBuy_cases buy_route_exhausted)
next
  assume "oa = ro"
  then show "calculateEtherTokenInputFromOutput (BN oa) (BN ir) (BN ro) = Inl NumericFault"
    by (simp add: reverse_BN)
next
  assume "ro < oa"
  with assms show "\<exists>z. calculateEtherTokenInputFromOutput (BN oa) (BN ir) (BN ro) = Inr (BN z) \<and> z \<le> 0"
    by (intro reverse_exhausted)
qed

theorem buy_beyond_reserve_fails_witness:
  "reserveSOCKSETH example_state = BN 1000 \<and> reserveSOCKSToken example_state = BN 50 \<and>
   (0::int) < 1000 \<and> (0::int) \<le> 50 \<and> (50::int) \<le> 60 \<and>
   validateBuy example_state (Some 60) = Inl (Thrown PlainError (Some INVALID_TRADE))"
proof -
  have h: "reserveSOCKSETH example_state = BN 1000" "reserveSOCKSToken example_state = BN 50"
    by (simp_all add: example_state_def)
  show ?thesis using h buy_beyond_reserve_fails [OF h, of 60] by simp
qed

section \<open>A sale whose route fails\<close>

text \<open>
  When \<open>calculateAmount\<close> throws, the handler of \<open>validateSell\<close> sets the code of the
  error and throws it again, before any balance or allowance is read: the outcome is the
  same whatever they are, absent ones included, and no quote is returned.
\<close>

lemma sell_aborts_before_checks:
  assumes "calculateAmount TOKEN_SYMBOLS_SOCKS (selectedTokenSymbol st) (BN v)
             (reserveSOCKSETH st) (reserveSOCKSToken st)
             (reserveSelectedTokenETH st) (reserveSelectedTokenToken st) = Inl e"
  shows "validateSell (st\<lparr>balanceETH := be, balanceSOCKS := bs, allowanceSOCKS := al\<rparr>) (Some v) =
           Inl (Thrown e (Some INVALID_EXCHANGE))"
  using assms by (simp add: validateSell_cases)

text \<open>
  C4: when the route of a sale fails, \<open>validateSell\<close> aborts at once with the error kind
  \<open>INVALID_TRADE\<close>, returns no quote and checks no balance. The sale does abort at once,
  but with another code: the handler of \<open>validateSell\<close> (line 422) assigns
  \<open>ERROR_CODES.INVALID_EXCHANGE\<close>, a member that the sources read nowhere else, where the
  handler of \<open>validateBuy\<close> (line 298) assigns \<open>ERROR_CODES.INVALID_TRADE\<close> to the same
  failure of \<open>calculateAmount\<close>. Selling 1 into a pool that holds no ETH, and selling 0
  into the pool of the example, both quote 0, which the range check rejects; the sale
  throws with \<open>INVALID_EXCHANGE\<close>. Buying 60 from a reserve of 50 fails the same range
  check, and the buy throws with \<open>INVALID_TRADE\<close>.
\<close>

theorem sell_route_failure_code:
  "validateSell (example_state\<lparr>reserveSOCKSETH := BN 0\<rparr>) (Some 1) =
     Inl (Thrown PlainError (Some INVALID_EXCHANGE)) \<and>
   validateSell example_state (Some 0) = Inl (Thrown PlainError (Some INVALID_EXCHANGE)) \<and>
   validateBuy example_state (Some 60) = Inl (Thrown PlainError (Some INVALID_TRADE))"
  by (simp add: validateSell_cases validateBuy_cases example_state_def calculateAmount_def
        TOKEN_SYMBOLS_ETH_def TOKEN_SYMBOLS_SOCKS_def forward_BN reverse_BN and_then_def checked_BN
        quot_def)

section \<open>The exchange rate\<close>

text \<open>
  C5, as stated: with a reserve absent or zero, \<open>getExchangeRate\<close> returns "unavailable"
  and never crashes on a division by zero. The guard of the source tests truthiness, and
  a \<open>BigNumber\<close> holding zero is an object, hence truthy: with both reserves present
  and the dividing one zero, the division throws.
\<close>

theorem exchange_rate_zero_counterexample:
  "getExchangeRate (BN 0) (BN 5) False = Inl NumericFault \<and>
   getExchangeRate (BN 5) (BN 0) True = Inl NumericFault \<and>
   getExchangeRate (BN 0) (BN 5) False \<noteq> Inr Undefined"
  by (simp add: getExchangeRate_BN)

text \<open>
  C5, amended: where a reserve is absent \<open>getExchangeRate\<close> returns \<open>undefined\<close>.
  Where both are present and the reserve it divides by is zero (\<open>inputValue\<close>, or
  \<open>outputValue\<close> when inverted), it throws the library's division-by-zero fault; where
  only the other reserve is zero it returns the rate 0.
\<close>

theorem exchange_rate_unavailable:
  "(iv = Undefined \<or> ov = Undefined \<longrightarrow>
      getExchangeRate iv ov invert = Inr Undefined) \<and>
   getExchangeRate (BN 0) (BN b) False = Inl NumericFault \<and>
   getExchangeRate (BN a) (BN 0) True = Inl NumericFault \<and>
   (a \<noteq> 0 \<longrightarrow> getExchangeRate (BN a) (BN 0) False = Inr (BN 0)) \<and>
   (b \<noteq> 0 \<longrightarrow> getExchangeRate (BN 0) (BN b) True = Inr (BN 0))"
proof (intro conjI impI)
  assume "iv = Undefined \<or> ov = Undefined"
  then show "getExchangeRate iv ov invert = Inr Undefined"
    by (auto simp add: getExchangeRate_def Let_def)
qed (simp_all add: getExchangeRate_BN quot_zero_left)

theorem exchange_rate_unavailable_witness:
  "getExchangeRate Undefined (BN 0) False = Inr Undefined \<and>
   (7::int) \<noteq> 0 \<and> getExchangeRate (BN 7) (BN 0) False = Inr (BN 0) \<and>
   getExchangeRate (BN 0) (BN 7) True = Inr (BN 0)"
  using exchange_rate_unavailable [of Undefined "BN 0" False 7 7] by simp

section \<open>Quotes and their error\<close>

text \<open>
  C6, as stated: whenever the amount parses and the route resolves, the quote is returned
  with the exact amounts, its error is the first failing check in the order gas, balance,
  allowance, and all the accumulated errors remain available to the caller. The
  accumulator keeps one error (\<open>if (!errorAccumulator)\<close>): a state where only the gas
  check fails and a state where all three fail return the same quote. And \<open>validateSell\<close>
  returns no quote when the gas balance is absent.
\<close>

theorem accumulated_errors_counterexample:
  "validateBuy (example_state\<lparr>selectedTokenSymbol := ''DAI'', balanceETH := BN 5\<rparr>) (Some 1) =
     Inr \<lparr>buy_quote.inputValue = BN 1334, maximumInputValue = BN 1360, buy_quote.outputValue = BN 1,
          buy_quote.error = Some INSUFFICIENT_ETH_GAS\<rparr> \<and>
   buy_failures (example_state\<lparr>selectedTokenSymbol := ''DAI'', balanceETH := BN 5\<rparr>) (BN 1360) =
     [INSUFFICIENT_ETH_GAS] \<and>
   validateBuy (example_state\<lparr>selectedTokenSymbol := ''DAI'', balanceETH := BN 5,
                  balanceSelectedToken := BN 0, allowanceSelectedToken := BN 0\<rparr>) (Some 1) =
     Inr \<lparr>buy_quote.inputValue = BN 1334, maximumInputValue = BN 1360, buy_quote.outputValue = BN 1,
          buy_quote.error = Some INSUFFICIENT_ETH_GAS\<rparr> \<and>
   buy_failures (example_state\<lparr>selectedTokenSymbol := ''DAI'', balanceETH := BN 5,
                   balanceSelectedToken := BN 0, allowanceSelectedToken := BN 0\<rparr>) (BN 1360) =
     [INSUFFICIENT_ETH_GAS, INSUFFICIENT_SELECTED_TOKEN_BALANCE, INSUFFICIENT_ALLOWANCE] \<and>
   validateSell (example_state\<lparr>balanceETH := Undefined\<rparr>) (Some 1) = Inl (Thrown TypeError None)"
  by (simp add: validateBuy_cases validateSell_cases example_state_def calculateAmount_def
        TOKEN_SYMBOLS_ETH_def TOKEN_SYMBOLS_SOCKS_def reverse_BN forward_BN and_then_def checked_BN
        slippage_BN quot_def uint256_max_def buy_failures_def first_error_def parseEther_01_def)

text \<open>
  C6, amended: whenever the amount parses and the route resolves, \<open>validateBuy\<close> returns
  a quote with the exact computed input, the parsed output and the slippage maximum, and
  its \<open>error\<close> is the first failing check in the order gas, balance, allowance; later
  failures are not kept. \<open>validateSell\<close> does the same, with the slippage minimum, when
  the gas balance, the SOCKS balance and the SOCKS allowance are present.
\<close>

theorem quote_with_first_error:
  "(calculateAmount (selectedTokenSymbol st) TOKEN_SYMBOLS_SOCKS (BN v)
      (reserveSOCKSETH st) (reserveSOCKSToken st)
      (reserveSelectedTokenETH st) (reserveSelectedTokenToken st) = Inr req \<longrightarrow>
    (\<exists>b. calculateSlippageBounds req = Inr b \<and>
         validateBuy st (Some v) =
           Inr \<lparr>buy_quote.inputValue = req, maximumInputValue = maximum b,
                buy_quote.outputValue = BN v,
                buy_quote.error = first_error (buy_failures st (maximum b))\<rparr>)) \<and>
   (calculateAmount TOKEN_SYMBOLS_SOCKS (selectedTokenSymbol st) (BN v)
      (reserveSOCKSETH st) (reserveSOCKSToken st)
      (reserveSelectedTokenETH st) (reserveSelectedTokenToken st) = Inr ret \<and>
    balanceETH st \<noteq> Undefined \<and> balanceSOCKS st \<noteq> Undefined \<and> allowanceSOCKS st \<noteq> Undefined \<longrightarrow>
    (\<exists>b. calculateSlippageBounds ret = Inr b \<and>
         validateSell st (Some v) =
           Inr \<lparr>sell_quote.inputValue = BN v, sell_quote.outputValue = ret,
                minimumOutputValue = minimum b,
                sell_quote.error = first_error (sell_failures st (BN v))\<rparr>))"
proof (intro conjI impI)
  assume r: "calculateAmount (selectedTokenSymbol st) TOKEN_SYMBOLS_SOCKS (BN v)
      (reserveSOCKSETH st) (reserveSOCKSToken st)
      (reserveSelectedTokenETH st) (reserveSelectedTokenToken st) = Inr req"
  then obtain z where "req = BN z" by (rule route_result)
  then obtain b where b: "calculateSlippageBounds req = Inr b" by (simp add: slippage_BN)
  then show "\<exists>b. calculateSlippageBounds req = Inr b \<and>
         validateBuy st (Some v) =
           Inr \<lparr>buy_quote.inputValue = req, maximumInputValue = maximum b,
                buy_quote.outputValue = BN v,
                buy_quote.error = first_error (buy_failures st (maximum b))\<rparr>"
    using r by (simp add: validateBuy_cases)
next
  assume a: "calculateAmount TOKEN_SYMBOLS_SOCKS (selectedTokenSymbol st) (BN v)
      (reserveSOCKSETH st) (reserveSOCKSToken st)
      (reserveSelectedTokenETH st) (reserveSelectedTokenToken st) = Inr ret \<and>
    balanceETH st \<noteq> Undefined \<and> balanceSOCKS st \<noteq> Undefined \<and> allowanceSOCKS st \<noteq> Undefined"
  then obtain z where "ret = BN z" using route_result by blast
  then obtain b where b: "calculateSlippageBounds ret = Inr b" by (simp add: slippage_BN)
  then show "\<exists>b. calculateSlippageBounds ret = Inr b \<and>
         validateSell st (Some v) =
           Inr \<lparr>sell_quote.inputValue = BN v, sell_quote.outputValue = ret,
                minimumOutputValue = minimum b,
                sell_quote.error = first_error (sell_failures st (BN v))\<rparr>"
    using a by (simp add: validateSell_cases)
qed

text \<open>A gas balance of 0.005 units, below the minimum of 0.01.\<close>

theorem quote_with_first_error_witness:
  "calculateAmount (selectedTokenSymbol (example_state\<lparr>balanceETH := BN (5 * 10 ^ 15)\<rparr>))
     TOKEN_SYMBOLS_SOCKS (BN 1) (BN 1000) (BN 50) (BN 100) (BN 5000) = Inr (BN 21) \<and>
   calculateAmount TOKEN_SYMBOLS_SOCKS (selectedTokenSymbol (example_state\<lparr>balanceETH := BN (5 * 10 ^ 15)\<rparr>))
     (BN 1) (BN 1000) (BN 50) (BN 100) (BN 5000) = Inr (BN 19) \<and>
   validateBuy (example_state\<lparr>balanceETH := BN (5 * 10 ^ 15)\<rparr>) (Some 1) =
     Inr \<lparr>buy_quote.inputValue = BN 21, maximumInputValue = BN 21, buy_quote.outputValue = BN 1,
          buy_quote.error = Some INSUFFICIENT_ETH_GAS\<rparr> \<and>
   validateSell (example_state\<lparr>balanceETH := BN (5 * 10 ^ 15)\<rparr>) (Some 1) =
     Inr \<lparr>sell_quote.inputValue = BN 1, sell_quote.outputValue = BN 19, minimumOutputValue = BN 19,
          sell_quote.error = Some INSUFFICIENT_ETH_GAS\<rparr>"
  using quote_with_first_error [of "example_state\<lparr>balanceETH := BN (5 * 10 ^ 15)\<rparr>" 1 "BN 21" "BN 19"]
  by (simp add: example_state_def calculateAmount_def TOKEN_SYMBOLS_ETH_def TOKEN_SYMBOLS_SOCKS_def
        reverse_BN forward_BN and_then_def checked_BN slippage_BN quot_def uint256_max_def
        buy_failures_def sell_failures_def first_error_def parseEther_01_def)

section \<open>Absent data\<close>

text \<open>
  C10: the validators treat absent data differently. \<open>validateBuy\<close> skips the check of
  an absent datum: it returns what it would return with a gas balance at the minimum, or
  with a balance or an allowance of \<open>MaxUint256\<close>, and with all three absent a buy whose
  route resolves returns a quote without an error. \<open>validateSell\<close> calls \<open>lt\<close> on the
  gas balance, the SOCKS balance and the SOCKS allowance unconditionally: with one of
  them absent, a sale whose route resolves throws a \<open>TypeError\<close>.
\<close>

theorem absent_data_asymmetry:
  "(balanceETH st = Undefined \<longrightarrow>
      validateBuy st p = validateBuy (st\<lparr>balanceETH := parseEther_01\<rparr>) p) \<and>
   (balanceSelectedToken st = Undefined \<longrightarrow>
      validateBuy st p = validateBuy (st\<lparr>balanceSelectedToken := MaxUint256\<rparr>) p) \<and>
   (allowanceSelectedToken st = Undefined \<longrightarrow>
      validateBuy st p = validateBuy (st\<lparr>allowanceSelectedToken := MaxUint256\<rparr>) p) \<and>
   (balanceETH st = Undefined \<and> balanceSelectedToken st = Undefined \<and>
    allowanceSelectedToken st = Undefined \<and>
    calculateAmount (selectedTokenSymbol st) TOKEN_SYMBOLS_SOCKS (BN v)
      (reserveSOCKSETH st) (reserveSOCKSToken st)
      (reserveSelectedTokenETH st) (reserveSelectedTokenToken st) = Inr req \<longrightarrow>
      (\<exists>q. validateBuy st (Some v) = Inr q \<and> buy_quote.error q = None)) \<and>
   ((balanceETH st = Undefined \<or> balanceSOCKS st = Undefined \<or> allowanceSOCKS st = Undefined) \<and>
    calculateAmount TOKEN_SYMBOLS_SOCKS (selectedTokenSymbol st) (BN v)
      (reserveSOCKSETH st) (reserveSOCKSToken st)
      (reserveSelectedTokenETH st) (reserveSelectedTokenToken st) = Inr ret \<longrightarrow>
      validateSell st (Some v) = Inl (Thrown TypeError None))"
proof (intro conjI impI)
  assume "balanceETH st = Undefined"
  then show "validateBuy st p = validateBuy (st\<lparr>balanceETH := parseEther_01\<rparr>) p"
    by (simp add: validateBuy_cases buy_failures_absent split: option.splits sum.splits)
next
  assume "balanceSelectedToken st = Undefined"
  then show "validateBuy st p = validateBuy (st\<lparr>balanceSelectedToken := MaxUint256\<rparr>) p"
    by (simp add: validateBuy_cases buy_failures_absent split: option.splits sum.splits)
next
  assume "allowanceSelectedToken st = Undefined"
  then show "validateBuy st p = validateBuy (st\<lparr>allowanceSelectedToken := MaxUint256\<rparr>) p"
    by (simp add: validateBuy_cases buy_failures_absent split: option.splits sum.splits)
next
  assume a: "balanceETH st = Undefined \<and> balanceSelectedToken st = Undefined \<and>
    allowanceSelectedToken st = Undefined \<and>
    calculateAmount (selectedTokenSymbol st) TOKEN_SYMBOLS_SOCKS (BN v)
      (reserveSOCKSETH st) (reserveSOCKSToken st)
      (reserveSelectedTokenETH st) (reserveSelectedTokenToken st) = Inr req"
  then obtain z where "req = BN z" using route_result by blast
  then obtain b where b: "calculateSlippageBounds req = Inr b" by (simp add: slippage_BN)
  then show "\<exists>q. validateBuy st (Some v) = Inr q \<and> buy_quote.error q = None"
    using a by (simp add: validateBuy_cases buy_failures_def first_error_def)
next
  assume a: "(balanceETH st = Undefined \<or> balanceSOCKS st = Undefined \<or> allowanceSOCKS st = Undefined) \<and>
    calculateAmount TOKEN_SYMBOLS_SOCKS (selectedTokenSymbol st) (BN v)
      (reserveSOCKSETH st) (reserveSOCKSToken st)
      (reserveSelectedTokenETH st) (reserveSelectedTokenToken st) = Inr ret"
  then obtain z where "ret = BN z" using route_result by blast
  then obtain b where b: "calculateSlippageBounds ret = Inr b" by (simp add: slippage_BN)
  then show "validateSell st (Some v) = Inl (Thrown TypeError None)"
    using a by (auto simp add: validateSell_cases)
qed

theorem absent_data_asymmetry_witness:
  "calculateAmount ''ETH'' TOKEN_SYMBOLS_SOCKS (BN 1) (BN 1000) (BN 50) (BN 100) (BN 5000) = Inr (BN 21) \<and>
   calculateAmount TOKEN_SYMBOLS_SOCKS ''ETH'' (BN 1) (BN 1000) (BN 50) (BN 100) (BN 5000) = Inr (BN 19) \<and>
   validateBuy (example_state\<lparr>balanceETH := Undefined, balanceSelectedToken := Undefined,
                  allowanceSelectedToken := Undefined\<rparr>) (Some 1) =
     Inr \<lparr>buy_quote.inputValue = BN 21, maximumInputValue = BN 21, buy_quote.outputValue = BN 1,
          buy_quote.error = None\<rparr> \<and>
   validateSell (example_state\<lparr>balanceETH := Undefined, balanceSelectedToken := Undefined,
                   allowanceSelectedToken := Undefined\<rparr>) (Some 1) =
     Inl (Thrown TypeError None)"
  using absent_data_asymmetry [of "example_state\<lparr>balanceETH := Undefined, balanceSelectedToken := Undefined,
                  allowanceSelectedToken := Undefined\<rparr>" "Some 1" 1 "BN 21" "BN 19"]
  by (simp add: validateBuy_cases validateSell_cases example_state_def calculateAmount_def TOKEN_SYMBOLS_ETH_def TOKEN_SYMBOLS_SOCKS_def
        reverse_BN forward_BN and_then_def checked_BN slippage_BN quot_def uint256_max_def
        buy_failures_def first_error_def parseEther_01_def MaxUint256_def)

end
